theory Spec2Isabelle
  imports Complex_Main
begin

section \<open>The dynamic beta controller of \<^verbatim>\<open>recipe/exploration/dynamic_beta_kl.py\<close>\<close>

text \<open>
  The controller keeps a KL coefficient between two configured bounds and recomputes it
  from a batch of rewards grouped by prompt id.

  The Python computes in floating point: the rewards are cast to binary32 (line 56), the
  loop body works on binary32 arrays, and the smoothing blend of line 100 is an
  expression of Python floats, which are binary64. The definitions of the update below
  compute in exact real arithmetic instead. The theorems stated on them are about what
  the rounding of that computation does not change: the control flow (the early return,
  the grouping, the index error), the configuration, groups whose score is zero, and
  inputs on which every operation is exact. The step whose rounding decides the
  statements made about it, the store of lines 98 to 102, is modelled a second time, in
  binary64 (\<open>store_value\<close>).

  One place where the Python leaves the numbers altogether is written out: with a
  negative \<open>eps\<close> a group without positive mass is not caught by the guard
  \<^verbatim>\<open>pos_sum <= self.eps\<close>, numpy divides zero by zero and the stored value is NaN.
  No exception is raised there, so the model records it as the outcome \<open>NotANumber\<close>,
  ranked below an \<open>IndexError\<close> of another group, which the Python does raise.
\<close>

subsection \<open>State and construction\<close>

datatype error = IndexError | NotANumber

record controller =
  beta_min :: real
  beta_max :: real
  eps :: real
  ema_alpha :: "real option"
  "value" :: real

text \<open>
  \<^verbatim>\<open>__init__\<close> stores its arguments and starts at \<open>beta_max\<close>. It has no \<^verbatim>\<open>raise\<close>:
  the result type is that of any call, and the only branch is the successful one.
\<close>

definition init :: "real \<Rightarrow> real \<Rightarrow> real \<Rightarrow> real option \<Rightarrow> error + controller" where
  "init bmin bmax e a =
     Inr \<lparr>beta_min = bmin, beta_max = bmax, eps = e, ema_alpha = a, value = bmax\<rparr>"

subsection \<open>Grouping by uid\<close>

text \<open>
  \<^verbatim>\<open>groups = defaultdict(list)\<close> is an association list in insertion order, which is
  the order \<^verbatim>\<open>groups.items()\<close> iterates in. \<open>append_idx\<close> is
  \<^verbatim>\<open>groups[uid].append(i)\<close>: a new key goes to the end.
\<close>

fun append_idx :: "('u \<times> nat list) list \<Rightarrow> 'u \<Rightarrow> nat \<Rightarrow> ('u \<times> nat list) list" where
  "append_idx [] uid i = [(uid, [i])]"
| "append_idx ((k, idxs) # rest) uid i =
     (if k = uid then (k, idxs @ [i]) # rest else (k, idxs) # append_idx rest uid i)"

definition group_indices :: "'u list \<Rightarrow> ('u \<times> nat list) list" where
  "group_indices uids =
     fold (\<lambda>(i, uid) groups. append_idx groups uid i) (enumerate 0 uids) []"

text \<open>
  \<^verbatim>\<open>r[idxs]\<close> with a list of indices: numpy raises IndexError when one of them is out
  of range (the indices come from \<^verbatim>\<open>enumerate\<close>, so none is negative).
\<close>

definition take_rows :: "real list \<Rightarrow> nat list \<Rightarrow> error + real list" where
  "take_rows r idxs =
     (if list_all (\<lambda>i. i < length r) idxs then Inr (map (\<lambda>i. r ! i) idxs)
      else Inl IndexError)"

subsection \<open>The reliability score of one group\<close>

text \<open>Each definition is one line of the loop body, named after the variable it assigns.\<close>

definition mean :: "real list \<Rightarrow> real" where
  "mean xs = sum_list xs / real (length xs)"

definition centered :: "real list \<Rightarrow> real list" where
  "centered rr = map (\<lambda>x. x - mean rr) rr"

definition p_above :: "real list \<Rightarrow> real" where
  "p_above rr = mean (map (\<lambda>x. if 0 < x then 1 else 0) (centered rr))"

definition pos_part :: "real list \<Rightarrow> real list" where
  "pos_part rr = map (\<lambda>x. max x 0) (centered rr)"

definition pos_sum :: "real list \<Rightarrow> real" where
  "pos_sum rr = sum_list (pos_part rr)"

definition R_weights :: "real list \<Rightarrow> real list" where
  "R_weights rr = map (\<lambda>x. x / pos_sum rr) (pos_part rr)"

definition n_eff :: "real list \<Rightarrow> real" where
  "n_eff rr = 1 / sum_list (map (\<lambda>x. x * x) (R_weights rr))"

text \<open>
  \<open>None\<close> is NaN: the guard let a zero \<open>pos_sum\<close> through, which only a negative
  \<open>eps\<close> allows, and \<^verbatim>\<open>pos / pos_sum\<close> is zero divided by zero.
\<close>

definition tilde_n :: "real \<Rightarrow> real list \<Rightarrow> real option" where
  "tilde_n e rr =
     (if pos_sum rr \<le> e then Some 0
      else if pos_sum rr = 0 then None
      else Some (n_eff rr / real (length rr)))"

definition s_p :: "real list \<Rightarrow> real" where
  "s_p rr = 4 * p_above rr * (1 - p_above rr)"

definition group_score :: "real \<Rightarrow> real list \<Rightarrow> real option" where
  "group_score e rr = map_option (\<lambda>t. s_p rr * t) (tilde_n e rr)"

subsection \<open>The batch score and the update\<close>

text \<open>
  The loop over \<^verbatim>\<open>groups.items()\<close>: the first group whose indexing fails raises, an
  empty group is skipped, every other group appends its score to \<^verbatim>\<open>s_list\<close>.
\<close>

fun score_groups :: "real \<Rightarrow> real list \<Rightarrow> ('u \<times> nat list) list \<Rightarrow> error + real option list" where
  "score_groups e r [] = Inr []"
| "score_groups e r ((uid, idxs) # rest) =
     (case take_rows r idxs of
        Inl err \<Rightarrow> Inl err
      | Inr rr \<Rightarrow>
          (case score_groups e r rest of
             Inl err \<Rightarrow> Inl err
           | Inr ss \<Rightarrow> Inr (if length rr = 0 then ss else group_score e rr # ss)))"

fun all_numbers :: "real option list \<Rightarrow> real list option" where
  "all_numbers [] = Some []"
| "all_numbers (None # ss) = None"
| "all_numbers (Some s # ss) = map_option (\<lambda>xs. s # xs) (all_numbers ss)"

definition s_batch :: "real option list \<Rightarrow> real option" where
  "s_batch s_list =
     (if length s_list = 0 then Some 0 else map_option mean (all_numbers s_list))"

definition clip :: "real \<Rightarrow> real \<Rightarrow> real \<Rightarrow> real" where
  "clip x lo hi = min (max x lo) hi"

definition beta_t :: "controller \<Rightarrow> real list \<Rightarrow> 'u list \<Rightarrow> error + real" where
  "beta_t self rewards uids =
     (case score_groups (eps self) rewards (group_indices uids) of
        Inl err \<Rightarrow> Inl err
      | Inr s_list \<Rightarrow>
          (case s_batch s_list of
             None \<Rightarrow> Inl NotANumber
           | Some sb \<Rightarrow>
               Inr (clip (beta_max self - (beta_max self - beta_min self) * sb)
                      (beta_min self) (beta_max self))))"

definition update_with_stats :: "controller \<Rightarrow> real list \<Rightarrow> 'u list \<Rightarrow> error + controller" where
  "update_with_stats self rewards uids =
     (if length rewards = 0 then Inr self
      else
        (case beta_t self rewards uids of
           Inl err \<Rightarrow> Inl err
         | Inr bt \<Rightarrow>
             (case ema_alpha self of
                Some a \<Rightarrow> Inr (self\<lparr>value := a * value self + (1 - a) * bt\<rparr>)
              | None \<Rightarrow> Inr (self\<lparr>value := bt\<rparr>))))"

subsection \<open>The store of lines 98 to 102 in binary64\<close>

text \<open>
  \<^verbatim>\<open>a\<close>, \<^verbatim>\<open>self.value\<close> and \<^verbatim>\<open>beta_t\<close> are Python floats, so every operation of
  \<^verbatim>\<open>a * self.value + (1.0 - a) * beta_t\<close> returns the binary64 number nearest to its
  exact result, a tie going to the even significand. \<open>ulp_exponent\<close> is the exponent of
  the last place at the magnitude of \<open>x\<close>: 52 places below its leading bit, and never
  below \<open>-1074\<close>, where the subnormal numbers lie. \<open>fl64\<close> is \<open>None\<close> when the rounded
  result is beyond the largest binary64 number: Python then holds an infinity (or, after
  it, a NaN) and raises nothing.
\<close>

definition round_half_even :: "real \<Rightarrow> int" where
  "round_half_even x =
     (let n = \<lfloor>x\<rfloor>; r = x - of_int n
      in if r < 1 / 2 then n else if 1 / 2 < r then n + 1 else if even n then n else n + 1)"

definition ulp_exponent :: "real \<Rightarrow> int" where
  "ulp_exponent x = max (\<lfloor>log 2 \<bar>x\<bar>\<rfloor> - 52) (- 1074)"

definition round64 :: "real \<Rightarrow> real" where
  "round64 x =
     (if x = 0 then 0
      else of_int (round_half_even (x / 2 powi ulp_exponent x)) * 2 powi ulp_exponent x)"

definition fl64 :: "real \<Rightarrow> real option" where
  "fl64 x = (if \<bar>round64 x\<bar> < 2 ^ 1024 then Some (round64 x) else None)"

text \<open>
  The expression in Python's order of evaluation: the product \<^verbatim>\<open>a * self.value\<close>, the
  difference \<^verbatim>\<open>1.0 - a\<close>, its product with \<^verbatim>\<open>beta_t\<close>, and the sum.
\<close>

definition ema_value :: "real \<Rightarrow> real \<Rightarrow> real \<Rightarrow> real option" where
  "ema_value a v bt =
     Option.bind (fl64 (a * v)) (\<lambda>t1.
     Option.bind (fl64 (1 - a)) (\<lambda>t2.
     Option.bind (fl64 (t2 * bt)) (\<lambda>t3.
     fl64 (t1 + t3))))"

text \<open>
  Lines 98 to 102 on a fresh coefficient \<open>bt\<close>: the blend is stored when \<open>ema_alpha\<close> is
  set, \<open>bt\<close> itself otherwise. \<open>None\<close>: the value stored is not a finite number.
\<close>

definition store_value :: "controller \<Rightarrow> real \<Rightarrow> controller option" where
  "store_value self bt =
     (case ema_alpha self of
        Some a \<Rightarrow> map_option (\<lambda>y. self\<lparr>value := y\<rparr>) (ema_value a (value self) bt)
      | None \<Rightarrow> Some (self\<lparr>value := bt\<rparr>))"

subsection \<open>Groups and scores as the specification words them\<close>

text \<open>
  Section 3 and section 4.1 of the specification, written down independently of the code
  above: a group is the indices sharing one identifier, and its score is \<open>4 p (1 - p)\<close>
  times the normalised effective sample size. The lemmas on the loop are stated with
  them.
\<close>

definition spec_indices :: "'u list \<Rightarrow> 'u \<Rightarrow> nat list" where
  "spec_indices group_ids k = filter (\<lambda>i. group_ids ! i = k) [0..<length group_ids]"

definition spec_group :: "real list \<Rightarrow> 'u list \<Rightarrow> 'u \<Rightarrow> real list" where
  "spec_group rewards group_ids k = map (\<lambda>i. rewards ! i) (spec_indices group_ids k)"

definition spec_score :: "real \<Rightarrow> real list \<Rightarrow> real" where
  "spec_score e rs =
     (let G = real (length rs);
          mean_r = sum_list rs / G;
          g = map (\<lambda>x. x - mean_r) rs;
          p = real (length (filter (\<lambda>x. 0 < x) g)) / G;
          pos = map (\<lambda>x. max x 0) g;
          pos_total = sum_list pos;
          tilde = (if pos_total \<le> e then 0
                   else (1 / (\<Sum>x\<leftarrow>pos. (x / pos_total)\<^sup>2)) / G)
      in 4 * p * (1 - p) * tilde)"

subsection \<open>The configuration of the worked scenario\<close>

text \<open>
  The specification's scenario runs on \<open>beta_min = 0\<close>, \<open>beta_max = 1\<close>, \<open>eps = 1e-8\<close>. The
  abbreviation is that controller, with the smoothing weight and the current value left
  open.
\<close>

abbreviation scenario_state :: "real option \<Rightarrow> real \<Rightarrow> controller" where
  "scenario_state a v \<equiv>
     \<lparr>beta_min = 0, beta_max = 1, eps = 1 / 10 ^ 8, ema_alpha = a, value = v\<rparr>"

text \<open>
  The binary64 numbers that the literals \<^verbatim>\<open>0.1\<close> and \<^verbatim>\<open>0.3\<close> denote, and a controller
  with smoothing that holds them.
\<close>

abbreviation binary64_0_1 :: real where
  "binary64_0_1 \<equiv> 3602879701896397 / 2 ^ 55"

abbreviation binary64_0_3 :: real where
  "binary64_0_3 \<equiv> 5404319552844595 / 2 ^ 54"

abbreviation smoothing_state :: "real \<Rightarrow> real \<Rightarrow> real \<Rightarrow> controller" where
  "smoothing_state bmax a v \<equiv>
     \<lparr>beta_min = 0, beta_max = bmax, eps = 1 / 10 ^ 8, ema_alpha = Some a, value = v\<rparr>"

section \<open>Grouping\<close>

text \<open>
  The dictionary the loop builds holds every uid of the batch once, each with the
  ascending list of the positions it stands at.
\<close>

lemma map_fst_append_idx:
  "map fst (append_idx g k i) = (if k \<in> set (map fst g) then map fst g else map fst g @ [k])"
  by (induction g k i rule: append_idx.induct) auto

lemma map_of_append_idx:
  "map_of (append_idx g k i) =
     (map_of g)(k \<mapsto> (case map_of g k of None \<Rightarrow> [i] | Some idxs \<Rightarrow> idxs @ [i]))"
  by (induction g k i rule: append_idx.induct) (auto simp: fun_eq_iff)

lemma group_indices_Nil: "group_indices [] = []"
  by (simp add: group_indices_def)

lemma group_indices_snoc:
  "group_indices (uids @ [uid]) = append_idx (group_indices uids) uid (length uids)"
  by (simp add: group_indices_def enumerate_append_eq)

lemma keys_group_indices:
  "distinct (map fst (group_indices uids)) \<and> set (map fst (group_indices uids)) = set uids"
proof (induction uids rule: rev_induct)
  case Nil
  show ?case by (simp add: group_indices_Nil)
next
  case (snoc x xs)
  then show ?case
    by (auto simp: group_indices_snoc map_fst_append_idx)
qed

lemma spec_indices_snoc:
  "spec_indices (uids @ [uid]) k =
     spec_indices uids k @ (if uid = k then [length uids] else [])"
proof -
  have "filter (\<lambda>i. (uids @ [uid]) ! i = k) [0..<length uids]
          = filter (\<lambda>i. uids ! i = k) [0..<length uids]"
    by (rule filter_cong) (auto simp: nth_append)
  then show ?thesis by (simp add: spec_indices_def)
qed

lemma spec_indices_empty_iff: "spec_indices uids k = [] \<longleftrightarrow> k \<notin> set uids"
  by (auto simp: spec_indices_def filter_empty_conv in_set_conv_nth)

lemma spec_indices_bound: "i \<in> set (spec_indices uids k) \<Longrightarrow> i < length uids"
  by (simp add: spec_indices_def)

lemma map_of_group_indices:
  "map_of (group_indices uids) k =
     (if k \<in> set uids then Some (spec_indices uids k) else None)"
proof (induction uids rule: rev_induct)
  case Nil
  show ?case by (simp add: group_indices_Nil)
next
  case (snoc x xs)
  show ?case
  proof (cases "x = k")
    case True
    then show ?thesis
      using snoc spec_indices_empty_iff[of xs k]
      by (simp add: group_indices_snoc map_of_append_idx spec_indices_snoc)
  next
    case False
    then show ?thesis
      using snoc by (simp add: group_indices_snoc map_of_append_idx spec_indices_snoc)
  qed
qed

lemma group_indices_eq:
  assumes "(k, idxs) \<in> set (group_indices uids)"
  shows "k \<in> set uids \<and> idxs = spec_indices uids k"
proof -
  have "map_of (group_indices uids) k = Some idxs"
    using assms keys_group_indices[of uids] by simp
  then show ?thesis
    by (simp add: map_of_group_indices split: if_splits)
qed

lemma group_indices_map:
  "group_indices uids = map (\<lambda>k. (k, spec_indices uids k)) (map fst (group_indices uids))"
proof -
  have "\<forall>p \<in> set (group_indices uids). p = (fst p, spec_indices uids (fst p))"
    using group_indices_eq[of _ _ uids] by auto
  then have "map (\<lambda>p. p) (group_indices uids)
               = map (\<lambda>p. (fst p, spec_indices uids (fst p))) (group_indices uids)"
    by (intro map_cong) auto
  then show ?thesis by (simp add: comp_def)
qed

section \<open>Scoring the groups of a batch\<close>

lemma score_groups_ok:
  "\<forall>p\<in>set g. snd p \<noteq> [] \<and> list_all (\<lambda>i. i < length r) (snd p) \<Longrightarrow>
   score_groups e r g = Inr (map (\<lambda>p. group_score e (map (\<lambda>i. r ! i) (snd p))) g)"
  by (induction g) (auto simp: take_rows_def)

lemma score_groups_Inl: "score_groups e r g = Inl err \<Longrightarrow> err = IndexError"
  by (induction g) (auto simp: take_rows_def split: sum.splits if_splits)


lemma score_groups_batch:
  assumes "length uids \<le> length r"
  shows "score_groups e r (group_indices uids)
           = Inr (map (\<lambda>k. group_score e (spec_group r uids k)) (map fst (group_indices uids)))"
proof -
  have "\<forall>p\<in>set (group_indices uids). snd p \<noteq> [] \<and> list_all (\<lambda>i. i < length r) (snd p)"
  proof
    fix p assume "p \<in> set (group_indices uids)"
    then have p: "fst p \<in> set uids" "snd p = spec_indices uids (fst p)"
      using group_indices_eq[of "fst p" "snd p" uids] by auto
    show "snd p \<noteq> [] \<and> list_all (\<lambda>i. i < length r) (snd p)"
      using p assms spec_indices_empty_iff[of uids "fst p"] spec_indices_bound[of _ uids "fst p"]
      by (fastforce simp: list_all_iff)
  qed
  then have "score_groups e r (group_indices uids)
      = Inr (map (\<lambda>p. group_score e (map (\<lambda>i. r ! i) (snd p))) (group_indices uids))"
    by (rule score_groups_ok)
  also have "map (\<lambda>p. group_score e (map (\<lambda>i. r ! i) (snd p))) (group_indices uids)
      = map (\<lambda>k. group_score e (spec_group r uids k)) (map fst (group_indices uids))"
    by (subst group_indices_map) (simp add: comp_def spec_group_def)
  finally show ?thesis .
qed

lemma sum_list_indicator:
  "(\<Sum>x\<leftarrow>xs. if P x then (1::real) else 0) = real (length (filter P xs))"
  by (induction xs) auto

lemma p_above_count:
  "p_above rr = real (length (filter (\<lambda>x. 0 < x) (centered rr))) / real (length rr)"
  by (simp add: p_above_def mean_def sum_list_indicator centered_def o_def)

lemma spec_score_eq:
  "spec_score e rr = s_p rr * (if pos_sum rr \<le> e then 0 else n_eff rr / real (length rr))"
proof -
  have p: "real (length (filter (\<lambda>x. 0 < x) (map (\<lambda>x. x - sum_list rr / real (length rr)) rr))) / real (length rr)
             = p_above rr"
    by (simp add: p_above_count centered_def mean_def)
  have sq: "(\<Sum>x\<leftarrow>pos_part rr. (x / pos_sum rr)\<^sup>2) = sum_list (map (\<lambda>x. x * x) (R_weights rr))"
    by (simp add: R_weights_def o_def power2_eq_square)
  have pp: "map (\<lambda>x. max x 0) (map (\<lambda>x. x - sum_list rr / real (length rr)) rr) = pos_part rr"
    by (simp add: pos_part_def centered_def mean_def)
  show ?thesis
    unfolding spec_score_def Let_def p pp
    unfolding pos_sum_def[symmetric] sq n_eff_def[symmetric] s_p_def
    by simp
qed

lemma group_score_spec:
  "group_score e rr = Some (spec_score e rr) \<or> (e < 0 \<and> group_score e rr = None)"
  by (auto simp: group_score_def tilde_n_def spec_score_eq)

lemma all_numbers_map_Some:
  "\<forall>k\<in>set ks. f k = Some (h k) \<Longrightarrow> all_numbers (map f ks) = Some (map h ks)"
  by (induction ks) auto

section \<open>The scenario of one balanced group\<close>

text \<open>
  One group of four rewards \<open>[1, 1, -1, -1]\<close>, evaluated line by line. Any \<open>eps\<close> below
  the positive mass \<open>2\<close> takes the branch that computes the effective sample size.
\<close>

lemma group_indices_four: "group_indices [k, k, k, k] = [(k, [0, 1, 2, 3])]"
  by (simp add: group_indices_def enumerate_eq_zip upt_rec)

lemma p_above_scenario: "p_above [1, 1, -1, -1] = 1 / 2"
  by (simp add: p_above_def centered_def mean_def)

lemma pos_sum_scenario: "pos_sum [1, 1, -1, -1] = 2"
  by (simp add: pos_sum_def pos_part_def centered_def mean_def)

lemma n_eff_scenario: "n_eff [1, 1, -1, -1] = 2"
  by (simp add: n_eff_def R_weights_def pos_sum_scenario pos_part_def centered_def mean_def)

lemma tilde_n_scenario: "e < 2 \<Longrightarrow> tilde_n e [1, 1, -1, -1] = Some (1 / 2)"
  by (simp add: tilde_n_def pos_sum_scenario n_eff_scenario)

lemma s_p_scenario: "s_p [1, 1, -1, -1] = 1"
  by (simp add: s_p_def p_above_scenario)

lemma group_score_scenario: "e < 2 \<Longrightarrow> group_score e [1, 1, -1, -1] = Some (1 / 2)"
  by (simp add: group_score_def tilde_n_scenario s_p_scenario)

lemma score_groups_scenario:
  "e < 2 \<Longrightarrow> score_groups e [1, 1, -1, -1] (group_indices [k, k, k, k]) = Inr [Some (1 / 2)]"
  by (simp add: group_indices_four take_rows_def group_score_scenario)

lemma beta_t_scenario:
  "eps st < 2 \<Longrightarrow>
   beta_t st [1, 1, -1, -1] [k, k, k, k]
     = Inr (clip (beta_max st - (beta_max st - beta_min st) * (1 / 2)) (beta_min st) (beta_max st))"
  by (simp add: beta_t_def score_groups_scenario s_batch_def mean_def)

text \<open>
  Claim C3. With \<open>beta_min = 0\<close>, \<open>beta_max = 1\<close>, \<open>eps = 1e-8\<close> and no smoothing, the
  freshly constructed controller updated once on the single group \<open>[1, 1, -1, -1]\<close> passes
  through \<open>p = 0.5\<close>, \<open>pos_sum = 2\<close>, \<open>n_eff = 2\<close>, \<open>tilde_n = 0.5\<close>, \<open>s_p = 1\<close>,
  group score \<open>0.5\<close> and \<open>s_batch = 0.5\<close>, and ends with the value \<open>0.5\<close>.
\<close>

theorem concrete_scenario:
  "init 0 1 (1 / 10 ^ 8) None = Inr (scenario_state None 1)
   \<and> p_above [1, 1, -1, -1] = 1 / 2
   \<and> pos_sum [1, 1, -1, -1] = 2
   \<and> n_eff [1, 1, -1, -1] = 2
   \<and> tilde_n (1 / 10 ^ 8) [1, 1, -1, -1] = Some (1 / 2)
   \<and> s_p [1, 1, -1, -1] = 1
   \<and> group_score (1 / 10 ^ 8) [1, 1, -1, -1] = Some (1 / 2)
   \<and> score_groups (1 / 10 ^ 8) [1, 1, -1, -1] (group_indices [k, k, k, k]) = Inr [Some (1 / 2)]
   \<and> s_batch [Some (1 / 2)] = Some (1 / 2)
   \<and> update_with_stats (scenario_state None 1) [1, 1, -1, -1] [k, k, k, k]
      = Inr (scenario_state None (1 / 2))"
  by (simp add: init_def p_above_scenario pos_sum_scenario n_eff_scenario tilde_n_scenario
        s_p_scenario group_score_scenario score_groups_scenario s_batch_def mean_def
        update_with_stats_def beta_t_scenario clip_def)

section \<open>The empty batch\<close>

text \<open>
  Claim C4. An update whose reward tensor is empty returns at once: the controller is
  left as it was, in every field, whatever the state and whatever \<open>uids\<close> holds.
\<close>

theorem empty_batch_noop: "update_with_stats st [] uids = Inr st"
  by (simp add: update_with_stats_def)

section \<open>A completed update\<close>

lemma clip_bounds: "lo \<le> hi \<Longrightarrow> lo \<le> clip x lo hi \<and> clip x lo hi \<le> hi"
  by (auto simp: clip_def)

lemma beta_t_bounds:
  assumes "beta_min st \<le> beta_max st" and "beta_t st r uids = Inr bt"
  shows "beta_min st \<le> bt \<and> bt \<le> beta_max st"
  using assms clip_bounds[of "beta_min st" "beta_max st"]
  by (auto simp: beta_t_def split: sum.splits option.splits)

lemma beta_t_value_irrelevant: "beta_t (st\<lparr>value := v\<rparr>) r uids = beta_t st r uids"
  by (simp add: beta_t_def split: sum.splits option.splits)

lemma update_with_stats_Inr:
  assumes "update_with_stats st r uids = Inr st'"
  shows "st' = st \<and> r = []
         \<or> (\<exists>bt. r \<noteq> [] \<and> beta_t st r uids = Inr bt
               \<and> st' = st\<lparr>value := (case ema_alpha st of Some a \<Rightarrow> a * value st + (1 - a) * bt
                                      | None \<Rightarrow> bt)\<rparr>)"
  using assms by (auto simp: update_with_stats_def split: if_splits sum.splits option.splits)

text \<open>
  Without smoothing the value stored is the clipped coefficient itself, which lies
  between the bounds.
\<close>

lemma unsmoothed_value_in_range:
  assumes "ema_alpha st = None" and "beta_min st \<le> beta_max st" and "rewards \<noteq> []"
    and "update_with_stats st rewards uids = Inr st'"
  shows "beta_min st' \<le> value st' \<and> value st' \<le> beta_max st'"
proof -
  from update_with_stats_Inr[OF assms(4)] assms(1,3) obtain bt where
    bt: "beta_t st rewards uids = Inr bt" and st': "st' = st\<lparr>value := bt\<rparr>"
    by auto
  from beta_t_bounds[OF assms(2) bt] show ?thesis by (simp add: st')
qed

section \<open>Updates without smoothing\<close>

text \<open>
  Claim C10, as the code has it. With \<open>ema_alpha\<close> unset, a second call with the same
  batch leaves the state the first call produced, for every batch; and for every
  non-empty batch the outcome does not depend on the previous value: two starting
  states that differ in the value only have the same outcome.
\<close>

theorem unsmoothed_update_idempotent:
  assumes "ema_alpha st = None"
  shows "(\<forall>st1. update_with_stats st rewards uids = Inr st1
            \<longrightarrow> update_with_stats st1 rewards uids = Inr st1)
         \<and> (rewards \<noteq> []
            \<longrightarrow> update_with_stats (st\<lparr>value := v\<rparr>) rewards uids
                  = update_with_stats st rewards uids)"
proof -
  have "update_with_stats st1 rewards uids = Inr st1"
    if "update_with_stats st rewards uids = Inr st1" for st1
  proof -
    from update_with_stats_Inr[OF that] show ?thesis
    proof
      assume "st1 = st \<and> rewards = []"
      then show ?thesis by (simp add: update_with_stats_def)
    next
      assume "\<exists>bt. rewards \<noteq> [] \<and> beta_t st rewards uids = Inr bt
               \<and> st1 = st\<lparr>value := (case ema_alpha st of Some a \<Rightarrow> a * value st + (1 - a) * bt
                                      | None \<Rightarrow> bt)\<rparr>"
      then obtain bt where ne: "rewards \<noteq> []" and bt: "beta_t st rewards uids = Inr bt"
        and st1: "st1 = st\<lparr>value := bt\<rparr>"
        using assms by auto
      show ?thesis
        using ne bt assms by (simp add: st1 update_with_stats_def beta_t_value_irrelevant)
    qed
  qed
  moreover have "update_with_stats (st\<lparr>value := v\<rparr>) rewards uids
                  = update_with_stats st rewards uids" if "rewards \<noteq> []"
    using that assms
    by (simp add: update_with_stats_def beta_t_value_irrelevant split: sum.splits)
  ultimately show ?thesis by blast
qed

theorem unsmoothed_update_idempotent_witness:
  "ema_alpha (scenario_state None 1) = None
   \<and> update_with_stats (scenario_state None 1) [1, 1, -1, -1] [0, 0, 0, 0 :: nat]
      = Inr (scenario_state None (1 / 2))
   \<and> update_with_stats (scenario_state None (1 / 2)) [1, 1, -1, -1] [0, 0, 0, 0 :: nat]
      = Inr (scenario_state None (1 / 2))
   \<and> [1, 1, -1, -1 :: real] \<noteq> []
   \<and> update_with_stats (scenario_state None 7) [1, 1, -1, -1] [0, 0, 0, 0 :: nat]
      = update_with_stats (scenario_state None 1) [1, 1, -1, -1] [0, 0, 0, 0 :: nat]"
proof -
  have n: "ema_alpha (scenario_state None 1) = None"
    by simp
  have u: "update_with_stats (scenario_state None 1) [1, 1, -1, -1] [0, 0, 0, 0 :: nat]
      = Inr (scenario_state None (1 / 2))"
    by (simp add: update_with_stats_def beta_t_scenario clip_def)
  from unsmoothed_update_idempotent[OF n, of "[1, 1, -1, -1]" "[0, 0, 0, 0 :: nat]" 7] u
  show ?thesis by simp
qed

text \<open>
  For the empty batch the call returns at once, so the value after it is the previous
  value: two starting states with different values keep them.
\<close>

theorem value_depends_on_previous_counterexample:
  "ema_alpha (scenario_state None 1) = None
   \<and> update_with_stats (scenario_state None 1) [] ([] :: nat list)
      = Inr (scenario_state None 1)
   \<and> update_with_stats (scenario_state None (1 / 2)) [] ([] :: nat list)
      = Inr (scenario_state None (1 / 2))
   \<and> value (scenario_state None 1)
       \<noteq> value (scenario_state None (1 / 2))"
  by (simp add: update_with_stats_def)

section \<open>Degenerate groups\<close>

lemma all_equal_replicate: "\<forall>x\<in>set rr. x = c \<Longrightarrow> rr = replicate (length rr) c"
  by (induction rr) auto

lemma centered_all_equal:
  assumes "rr \<noteq> []" and "\<forall>x\<in>set rr. x = c"
  shows "centered rr = replicate (length rr) 0"
proof -
  have rr: "rr = replicate (length rr) c" using assms(2) by (rule all_equal_replicate)
  have "sum_list rr = real (length rr) * c"
    by (subst rr) (simp add: sum_list_replicate)
  then have "mean rr = c" using assms(1) by (simp add: mean_def)
  then have "centered rr = map (\<lambda>x. x - c) (replicate (length rr) c)"
    using rr by (simp add: centered_def)
  then show ?thesis by simp
qed

lemma group_score_all_equal:
  assumes "0 \<le> e" and "rr \<noteq> []" and "\<forall>x\<in>set rr. x = c"
  shows "group_score e rr = Some 0"
proof -
  have "pos_sum rr = 0"
    by (simp add: pos_sum_def pos_part_def centered_all_equal[OF assms(2,3)] sum_list_replicate)
  then show ?thesis using assms(1) by (simp add: group_score_def tilde_n_def)
qed

lemma group_indices_three: "group_indices [k, k, k] = [(k, [0, 1, 2])]"
  by (simp add: group_indices_def enumerate_eq_zip upt_rec)

text \<open>
  Claim C6. With \<open>eps\<close> not negative, as the data model has it, a group whose rewards are
  all equal has the reliability score \<open>0\<close>; and the batch of the single group
  \<open>[2, 2, 2]\<close> gives the fresh coefficient \<open>beta_t = beta_max\<close>.
\<close>

theorem degenerate_group_scores_zero:
  assumes "0 \<le> eps st" and "rr \<noteq> []" and "\<forall>x\<in>set rr. x = c"
  shows "group_score (eps st) rr = Some 0
         \<and> beta_t st [2, 2, 2] [k, k, k] = Inr (beta_max st)"
proof -
  have "group_score (eps st) [2, 2, 2] = Some 0"
    using assms(1) by (intro group_score_all_equal[where c = 2]) simp_all
  then have "beta_t st [2, 2, 2] [k, k, k] = Inr (beta_max st)"
    by (simp add: beta_t_def group_indices_three take_rows_def s_batch_def mean_def clip_def)
  with group_score_all_equal[OF assms] show ?thesis by simp
qed

theorem degenerate_group_scores_zero_witness:
  "0 \<le> eps (scenario_state None 1)
   \<and> [2, 2, 2 :: real] \<noteq> []
   \<and> list_all (\<lambda>x. x = 2) [2, 2, 2 :: real]
   \<and> group_score (1 / 10 ^ 8) [2, 2, 2] = Some 0
   \<and> beta_t (scenario_state None 1) [2, 2, 2] [0, 0, 0 :: nat] = Inr 1"
  using degenerate_group_scores_zero
    [of "(scenario_state None 1)"
        "[2, 2, 2]" 2 "0 :: nat"]
  by simp

section \<open>Balanced groups\<close>

text \<open>
  In exact arithmetic: half of the group above its mean gives \<open>p = 1/2\<close>, and equal
  positive deviations put the same weight on each rollout above the mean, so that the
  effective sample size is their number.
\<close>

lemma sum_list_const_if:
  "(\<Sum>x\<leftarrow>xs. if P x then (c::real) else 0) = c * real (length (filter P xs))"
  by (induction xs) (auto simp: algebra_simps)

lemma p_above_half:
  assumes "rr \<noteq> []" and "2 * length (filter (\<lambda>x. 0 < x) (centered rr)) = length rr"
  shows "p_above rr = 1 / 2"
proof -
  have "real (length rr) = 2 * real (length (filter (\<lambda>x. 0 < x) (centered rr)))"
    using assms(2) by (metis of_nat_mult of_nat_numeral)
  moreover have "real (length rr) \<noteq> 0" using assms(1) by simp
  ultimately show ?thesis
    by (simp add: p_above_count)
qed

lemma n_eff_equal_positives:
  assumes ne: "rr \<noteq> []"
    and half: "2 * length (filter (\<lambda>x. 0 < x) (centered rr)) = length rr"
    and eq: "\<forall>x\<in>set (centered rr). 0 < x \<longrightarrow> x = d"
  shows "n_eff rr = real (length (filter (\<lambda>x. 0 < x) (centered rr)))"
    and "0 < pos_sum rr"
proof -
  define m where "m = real (length (filter (\<lambda>x. 0 < x) (centered rr)))"
  have G: "real (length rr) = 2 * m"
    using half unfolding m_def by (metis of_nat_mult of_nat_numeral)
  have fne: "filter (\<lambda>x. 0 < x) (centered rr) \<noteq> []"
    using half ne by auto
  then have m_pos: "0 < m"
    by (simp add: m_def)
  from fne obtain x where "x \<in> set (centered rr)" "0 < x"
    by (auto simp: filter_empty_conv)
  with eq have d_pos: "0 < d" by auto
  have pos: "pos_part rr = map (\<lambda>x. if 0 < x then d else 0) (centered rr)"
    unfolding pos_part_def using eq by (intro map_cong) auto
  have ps: "pos_sum rr = d * m"
    by (simp add: pos_sum_def pos sum_list_const_if m_def)
  have ps_pos: "0 < pos_sum rr" using d_pos m_pos by (simp add: ps)
  have "R_weights rr = map (\<lambda>x. if 0 < x then 1 / m else 0) (centered rr)"
    using d_pos by (simp add: R_weights_def pos ps o_def if_distrib cong: if_cong)
  then have "sum_list (map (\<lambda>x. x * x) (R_weights rr))
               = (\<Sum>x\<leftarrow>centered rr. if 0 < x then (1 / m) * (1 / m) else 0)"
    by (simp add: o_def if_distrib cong: if_cong)
  also have "\<dots> = (1 / m) * (1 / m) * m"
    by (simp only: sum_list_const_if m_def)
  also have "\<dots> = 1 / m" using m_pos by simp
  finally show "n_eff rr = real (length (filter (\<lambda>x. 0 < x) (centered rr)))"
    using m_pos by (simp add: n_eff_def m_def)
  show "0 < pos_sum rr" by (rule ps_pos)
qed

text \<open>
  A group of binary rewards, half of them \<open>1\<close>: its mean is \<open>1/2\<close> and its deviations are
  \<open>1/2\<close> and \<open>-1/2\<close>.
\<close>

lemma count_ones:
  "set rr \<subseteq> {0, 1 :: real} \<Longrightarrow> real (length (filter (\<lambda>x. x = 1) rr)) = sum_list rr"
  by (induction rr) auto

lemma centered_binary:
  assumes "set rr \<subseteq> {0, 1 :: real}" and "mean rr = 1 / 2"
  shows "filter (\<lambda>x. 0 < x) (centered rr) = map (\<lambda>x. x - 1 / 2) (filter (\<lambda>x. x = 1) rr)"
    and "filter (\<lambda>x. x < 0) (centered rr) = map (\<lambda>x. x - 1 / 2) (filter (\<lambda>x. x = 0) rr)"
    and "\<forall>x\<in>set (centered rr). 0 < x \<longrightarrow> x = 1 / 2"
proof -
  have c: "centered rr = map (\<lambda>x. x - 1 / 2) rr"
    using assms(2) by (simp add: centered_def)
  have f1: "filter (\<lambda>x. 0 < x - 1 / 2) rr = filter (\<lambda>x. x = 1) rr"
    using assms(1) by (intro filter_cong) auto
  have f0: "filter (\<lambda>x. x - 1 / 2 < 0) rr = filter (\<lambda>x. x = 0) rr"
    using assms(1) by (intro filter_cong) auto
  show "filter (\<lambda>x. 0 < x) (centered rr) = map (\<lambda>x. x - 1 / 2) (filter (\<lambda>x. x = 1) rr)"
    unfolding c filter_map o_def f1 ..
  show "filter (\<lambda>x. x < 0) (centered rr) = map (\<lambda>x. x - 1 / 2) (filter (\<lambda>x. x = 0) rr)"
    unfolding c filter_map o_def f0 ..
  show "\<forall>x\<in>set (centered rr). 0 < x \<longrightarrow> x = 1 / 2"
    using assms(1) by (auto simp: c)
qed

text \<open>
  Claim C5, as the code has it. Take a group of binary rewards, each \<open>0\<close> or \<open>1\<close>, of size
  \<open>2^(j+1)\<close> with \<open>j \<le> 20\<close>, exactly half of them \<open>1\<close>: half of its rollouts are strictly
  above the group mean, half strictly below, and the positive deviations are all \<open>1/2\<close>.
  Then \<open>s_p = 1\<close>, the effective sample size is the number \<open>2^j\<close> of rollouts above the
  mean, \<open>tilde_n = 1/2\<close>, and the reliability score of the group is exactly \<open>1/2\<close>, for
  every \<open>eps\<close> below \<open>1/2\<close>. The same values hold for the group \<open>[1, 1, -1, -1]\<close>. On these
  groups every operation of the loop body is exact in binary32: the sums are sums of
  zeros, halves and ones below \<open>2^24\<close>, and the divisions are by powers of two.
\<close>

theorem balanced_groups_score_half:
  assumes "set rr \<subseteq> {0, 1}" and "length rr = 2 * 2 ^ j" and "sum_list rr = 2 ^ j"
    and "j \<le> 20" and "e < 1 / 2"
  shows "length (filter (\<lambda>x. 0 < x) (centered rr)) = 2 ^ j
         \<and> length (filter (\<lambda>x. x < 0) (centered rr)) = 2 ^ j
         \<and> list_all (\<lambda>x. x = 1 / 2) (filter (\<lambda>x. 0 < x) (centered rr))
         \<and> s_p rr = 1 \<and> n_eff rr = 2 ^ j
         \<and> tilde_n e rr = Some (1 / 2) \<and> group_score e rr = Some (1 / 2)
         \<and> s_p [1, 1, -1, -1] = 1 \<and> n_eff [1, 1, -1, -1] = 2
         \<and> tilde_n e [1, 1, -1, -1] = Some (1 / 2)
         \<and> group_score e [1, 1, -1, -1] = Some (1 / 2)"
proof -
  have ne: "rr \<noteq> []" using assms(2) by auto
  have m: "mean rr = 1 / 2"
    using assms(2,3) by (simp add: mean_def)
  have ones: "length (filter (\<lambda>x. x = 1) rr) = 2 ^ j"
    using count_ones[OF assms(1)] assms(3)
    by (metis of_nat_eq_iff of_nat_numeral of_nat_power)
  have "length (filter (\<lambda>x. x = 1) rr) + length (filter (\<lambda>x. \<not> x = 1) rr) = length rr"
    by (rule sum_length_filter_compl)
  moreover have "filter (\<lambda>x. \<not> x = 1) rr = filter (\<lambda>x. x = 0) rr"
    using assms(1) by (intro filter_cong) auto
  ultimately have zeros: "length (filter (\<lambda>x. x = 0) rr) = 2 ^ j"
    using ones assms(2) by simp
  note c = centered_binary[OF assms(1) m]
  have above: "length (filter (\<lambda>x. 0 < x) (centered rr)) = 2 ^ j"
    by (simp add: c(1) ones)
  have below: "length (filter (\<lambda>x. x < 0) (centered rr)) = 2 ^ j"
    by (simp add: c(2) zeros)
  have half: "2 * length (filter (\<lambda>x. 0 < x) (centered rr)) = length rr"
    by (simp add: above assms(2))
  have eq: "list_all (\<lambda>x. x = 1 / 2) (filter (\<lambda>x. 0 < x) (centered rr))"
    using c(3) by (auto simp: list_all_iff)
  have sp: "s_p rr = 1"
    by (simp add: s_p_def p_above_half[OF ne half])
  note n = n_eff_equal_positives[OF ne half c(3)]
  have neff: "n_eff rr = 2 ^ j" by (simp add: n(1) above)
  have ps: "1 / 2 \<le> pos_sum rr"
  proof -
    have "pos_part rr = map (\<lambda>x. if 0 < x then 1 / 2 else 0) (centered rr)"
      unfolding pos_part_def using c(3) by (intro map_cong) auto
    then have "pos_sum rr = 1 / 2 * 2 ^ j"
      by (simp add: pos_sum_def sum_list_const_if above)
    moreover have "(1 :: real) \<le> 2 ^ j" by simp
    ultimately show ?thesis by simp
  qed
  have tn: "tilde_n e rr = Some (1 / 2)"
    using ps assms(5) by (simp add: tilde_n_def neff assms(2))
  have e2: "e < 2" using assms(5) by simp
  from above below eq sp neff tn e2 show ?thesis
    by (simp add: group_score_def s_p_scenario n_eff_scenario tilde_n_scenario)
qed

theorem balanced_groups_score_half_witness:
  "set [1, 0, 1, 0, 1, 0, 1, 0 :: real] \<subseteq> {0, 1}
   \<and> length [1, 0, 1, 0, 1, 0, 1, 0 :: real] = 2 * 2 ^ 2
   \<and> sum_list [1, 0, 1, 0, 1, 0, 1, 0 :: real] = 2 ^ 2
   \<and> (2 :: nat) \<le> 20 \<and> (1 / 10 ^ 8 :: real) < 1 / 2
   \<and> s_p [1, 0, 1, 0, 1, 0, 1, 0] = 1
   \<and> n_eff [1, 0, 1, 0, 1, 0, 1, 0] = 4
   \<and> tilde_n (1 / 10 ^ 8) [1, 0, 1, 0, 1, 0, 1, 0] = Some (1 / 2)
   \<and> group_score (1 / 10 ^ 8) [1, 0, 1, 0, 1, 0, 1, 0] = Some (1 / 2)
   \<and> group_score (1 / 10 ^ 8) [1, 1, -1, -1] = Some (1 / 2)"
  using balanced_groups_score_half[of "[1, 0, 1, 0, 1, 0, 1, 0]" 2 "1 / 10 ^ 8"]
  by simp

text \<open>
  The group \<open>[1, 1, -1, -1]\<close> has half of its rollouts strictly above the mean, half
  strictly below, and equal positive deviations; its \<open>tilde_n\<close> and its score are not \<open>1\<close>.
\<close>

theorem balanced_group_score_counterexample:
  "2 * length (filter (\<lambda>x. 0 < x) (centered [1, 1, -1, -1])) = length [1, 1, -1, -1 :: real]
   \<and> 2 * length (filter (\<lambda>x. x < 0) (centered [1, 1, -1, -1])) = length [1, 1, -1, -1 :: real]
   \<and> filter (\<lambda>x. 0 < x) (centered [1, 1, -1, -1]) = [1, 1]
   \<and> tilde_n (1 / 10 ^ 8) [1, 1, -1, -1] \<noteq> Some 1
   \<and> group_score (1 / 10 ^ 8) [1, 1, -1, -1] \<noteq> Some 1"
  by (simp add: centered_def mean_def tilde_n_scenario group_score_scenario)

section \<open>Rewards and uids of different lengths\<close>








section \<open>Construction validates nothing\<close>

lemma beta_t_total:
  assumes "length uids \<le> length r" and "0 \<le> eps st"
  shows "\<exists>bt. beta_t st r uids = Inr bt"
proof -
  define ks where "ks = map fst (group_indices uids)"
  define f where "f = (\<lambda>k. group_score (eps st) (spec_group r uids k))"
  define h where "h = (\<lambda>k. spec_score (eps st) (spec_group r uids k))"
  have sg: "score_groups (eps st) r (group_indices uids) = Inr (map f ks)"
    using score_groups_batch[OF assms(1)] by (simp add: ks_def f_def)
  have "\<forall>k\<in>set ks. f k = Some (h k)"
    using group_score_spec[of "eps st"] assms(2) by (auto simp: f_def h_def)
  then have "all_numbers (map f ks) = Some (map h ks)"
    by (rule all_numbers_map_Some)
  then obtain sb where "s_batch (map f ks) = Some sb"
    by (cases "ks = []") (auto simp: s_batch_def)
  then show ?thesis by (simp add: beta_t_def sg)
qed

text \<open>
  Claim C8, as the code has it. Construction succeeds for every configuration, valid or
  not: it stores the arguments as given and sets the value to \<open>beta_max\<close>. No later update
  rejects the configuration either: with \<open>eps\<close> not negative, every batch with as many
  uids as rewards is processed to the end.
\<close>

theorem construction_accepts_every_configuration:
  "init bmin bmax e a
     = Inr \<lparr>beta_min = bmin, beta_max = bmax, eps = e, ema_alpha = a, value = bmax\<rparr>
   \<and> (0 \<le> e \<and> length uids = length rewards
      \<longrightarrow> (\<exists>st'. update_with_stats
                   \<lparr>beta_min = bmin, beta_max = bmax, eps = e, ema_alpha = a, value = bmax\<rparr>
                   rewards uids = Inr st'))"
proof -
  have "\<exists>st'. update_with_stats
                   \<lparr>beta_min = bmin, beta_max = bmax, eps = e, ema_alpha = a, value = bmax\<rparr>
                   rewards uids = Inr st'"
    if "0 \<le> e" "length uids = length rewards"
  proof -
    have "\<exists>bt. beta_t \<lparr>beta_min = bmin, beta_max = bmax, eps = e, ema_alpha = a, value = bmax\<rparr>
                 rewards uids = Inr bt"
      using that by (intro beta_t_total) simp_all
    then show ?thesis
      by (auto simp: update_with_stats_def split: option.splits)
  qed
  then show ?thesis by (simp add: init_def)
qed

theorem construction_accepts_every_configuration_witness:
  "init 1 0 (1 / 10 ^ 8) (Some 2)
     = Inr \<lparr>beta_min = 1, beta_max = 0, eps = 1 / 10 ^ 8, ema_alpha = Some 2, value = 0\<rparr>
   \<and> (0 :: real) \<le> 1 / 10 ^ 8 \<and> length [0, 0, 0, 0 :: nat] = length [1, 1, -1, -1 :: real]
   \<and> (\<exists>st'. update_with_stats
             \<lparr>beta_min = 1, beta_max = 0, eps = 1 / 10 ^ 8, ema_alpha = Some 2, value = 0\<rparr>
             [1, 1, -1, -1] [0, 0, 0, 0 :: nat] = Inr st')"
  using construction_accepts_every_configuration
    [of 1 0 "1 / 10 ^ 8" "Some 2" "[0, 0, 0, 0 :: nat]" "[1, 1, -1, -1]"]
  by simp

text \<open>
  A controller with \<open>beta_min = 1 > beta_max = 0\<close> is constructed, and so is one with
  \<open>ema_alpha = 2\<close>, whose first update then leaves the value \<open>3/2\<close> above \<open>beta_max = 1\<close>.
\<close>

theorem invalid_configuration_counterexample:
  "(1 :: real) > 0
   \<and> init 1 0 (1 / 10 ^ 8) None
       = Inr \<lparr>beta_min = 1, beta_max = 0, eps = 1 / 10 ^ 8, ema_alpha = None, value = 0\<rparr>
   \<and> \<not> ((0 :: real) \<le> 2 \<and> (2 :: real) \<le> 1)
   \<and> init 0 1 (1 / 10 ^ 8) (Some 2) = Inr (scenario_state (Some 2) 1)
   \<and> update_with_stats (scenario_state (Some 2) 1) [1, 1, -1, -1] [0, 0, 0, 0 :: nat]
       = Inr (scenario_state (Some 2) (3 / 2))"
  by (simp add: init_def update_with_stats_def beta_t_scenario clip_def)

section \<open>The smoothed value in binary64\<close>

subsection \<open>One rounding\<close>

lemma floor_log2_eq:
  assumes "2 powi k \<le> x" and "x < 2 powi (k + 1)"
  shows "\<lfloor>log 2 x\<rfloor> = k"
proof -
  have "(0 :: real) < 2 powi k" by simp
  with assms(1) have pos: "0 < x" by linarith
  have 1: "2 powr real_of_int k = 2 powi k"
    by (rule powr_real_of_int') simp_all
  have 2: "2 powr real_of_int (k + 1) = 2 powi (k + 1)"
    by (rule powr_real_of_int') simp_all
  have "real_of_int k \<le> log 2 x"
    using assms(1) pos 1 by (subst le_log_iff) simp_all
  moreover have "log 2 x < real_of_int (k + 1)"
    using assms(2) pos 2 by (subst log_less_iff) simp_all
  ultimately show ?thesis by linarith
qed

lemma fl64_normal:
  assumes "2 powi k \<le> \<bar>x\<bar>" and "\<bar>x\<bar> < 2 powi (k + 1)" and "- 1022 \<le> k"
    and "round_half_even (x / 2 powi (k - 52)) = m"
    and "\<bar>of_int m * 2 powi (k - 52)\<bar> < (2 :: real) ^ 1024"
  shows "fl64 x = Some (of_int m * 2 powi (k - 52))"
proof -
  have "(0 :: real) < 2 powi k" by simp
  with assms(1) have "0 < \<bar>x\<bar>" by linarith
  then have "x \<noteq> 0" by simp
  moreover have "ulp_exponent x = k - 52"
    using floor_log2_eq[OF assms(1,2)] assms(3) by (simp add: ulp_exponent_def)
  ultimately show ?thesis using assms(4,5) by (simp add: fl64_def round64_def)
qed

lemma fl64_zero: "fl64 0 = Some 0"
  by (simp add: fl64_def round64_def)

lemma fl64_one: "fl64 1 = Some 1"
  using fl64_normal[of 0 1 "2 ^ 52"]
  by (simp add: round_half_even_def Let_def power_int_minus)

lemma round_half_even_error: "\<bar>of_int (round_half_even z) - z\<bar> \<le> 1 / 2"
  unfolding round_half_even_def Let_def by (auto; linarith)

lemma two_powi_floor_log_le:
  assumes "x \<noteq> 0"
  shows "2 powi \<lfloor>log 2 \<bar>x\<bar>\<rfloor> \<le> \<bar>x\<bar>"
proof -
  have "2 powr real_of_int \<lfloor>log 2 \<bar>x\<bar>\<rfloor> \<le> 2 powr log 2 \<bar>x\<bar>"
    by (rule powr_mono) simp_all
  also have "\<dots> = \<bar>x\<bar>" using assms by simp
  finally show ?thesis by (simp add: powr_real_of_int')
qed

lemma round64_error: "\<bar>round64 x - x\<bar> \<le> \<bar>x\<bar> / 2 ^ 53 + 1 / 2 ^ 1075"
proof (cases "x = 0")
  case True
  then show ?thesis by (simp add: round64_def)
next
  case False
  define e where "e = ulp_exponent x"
  have pe: "(0 :: real) < 2 powi e" by (simp add: zero_less_power_int)
  have "round64 x - x = (of_int (round_half_even (x / 2 powi e)) - x / 2 powi e) * 2 powi e"
    using False pe by (simp add: round64_def e_def field_simps)
  then have "\<bar>round64 x - x\<bar> = \<bar>of_int (round_half_even (x / 2 powi e)) - x / 2 powi e\<bar> * 2 powi e"
    using pe by (simp add: abs_mult)
  also have "\<dots> \<le> 1 / 2 * 2 powi e"
    using round_half_even_error[of "x / 2 powi e"] pe by (intro mult_right_mono) simp_all
  finally have err: "\<bar>round64 x - x\<bar> \<le> 2 powi e / 2" by simp
  show ?thesis
  proof (cases "\<lfloor>log 2 \<bar>x\<bar>\<rfloor> - 52 \<le> - 1074")
    case True
    then have "e = - 1074" by (simp add: e_def ulp_exponent_def)
    then have "2 powi e / 2 = (1 :: real) / 2 ^ 1075" by (simp add: power_int_minus field_simps)
    moreover have "0 \<le> \<bar>x\<bar> / 2 ^ 53" by simp
    ultimately show ?thesis using err by linarith
  next
    case False
    then have e: "e = \<lfloor>log 2 \<bar>x\<bar>\<rfloor> - 52" by (simp add: e_def ulp_exponent_def)
    have "(2 :: real) powi e = 2 powi \<lfloor>log 2 \<bar>x\<bar>\<rfloor> / 2 ^ 52"
      unfolding e by (simp add: power_int_diff)
    also have "\<dots> \<le> \<bar>x\<bar> / 2 ^ 52"
      using two_powi_floor_log_le[OF \<open>x \<noteq> 0\<close>] by (simp add: divide_right_mono)
    finally have "2 powi e / 2 \<le> \<bar>x\<bar> / 2 ^ 53" by simp
    moreover have "(0 :: real) \<le> 1 / 2 ^ 1075" by simp
    ultimately show ?thesis using err by linarith
  qed
qed

lemma fl64_Some: "fl64 x = Some y \<Longrightarrow> y = round64 x"
  by (auto simp: fl64_def split: if_splits)

lemma fl64_error:
  assumes "fl64 x = Some y"
  shows "\<bar>y - x\<bar> \<le> \<bar>x\<bar> / 2 ^ 53 + 1 / 2 ^ 1075"
  using round64_error[of x] fl64_Some[OF assms] by simp

lemma fl64_finite:
  assumes "\<bar>x\<bar> \<le> 2 ^ 1023"
  shows "fl64 x = Some (round64 x)"
proof -
  have "\<bar>round64 x\<bar> \<le> \<bar>x\<bar> + \<bar>round64 x - x\<bar>" by linarith
  also have "\<dots> \<le> \<bar>x\<bar> + (\<bar>x\<bar> / 2 ^ 53 + 1 / 2 ^ 1075)"
    using round64_error[of x] by simp
  also have "\<dots> \<le> 2 ^ 1023 + (2 ^ 1023 / 2 ^ 53 + 1 / 2 ^ 1075)"
    using assms by (intro add_mono divide_right_mono) simp_all
  also have "\<dots> < (2 :: real) ^ 1024" by simp
  finally show ?thesis by (simp add: fl64_def)
qed

subsection \<open>The four roundings of the blend\<close>

text \<open>In exact arithmetic the blend of two numbers lies between them.\<close>

lemma blend_between:
  fixes a v b :: real
  assumes "0 \<le> a" and "a \<le> 1"
  shows "min v b \<le> a * v + (1 - a) * b \<and> a * v + (1 - a) * b \<le> max v b"
proof -
  have 1: "a * min v b \<le> a * v" "a * v \<le> a * max v b"
    using assms(1) by (simp_all add: mult_left_mono)
  have 2: "(1 - a) * min v b \<le> (1 - a) * b" "(1 - a) * b \<le> (1 - a) * max v b"
    using assms(2) by (simp_all add: mult_left_mono)
  have "a * min v b + (1 - a) * min v b = min v b" "a * max v b + (1 - a) * max v b = max v b"
    by (simp_all add: algebra_simps)
  with 1 2 show ?thesis by linarith
qed

lemma ema_value_t2:
  fixes a bt t2 M \<eta> :: real
  assumes a: "0 \<le> a" "a \<le> 1" and M: "\<bar>bt\<bar> \<le> M"
    and eta: "0 \<le> \<eta>" "\<eta> \<le> 1 / 2 ^ 53"
    and t2: "\<bar>t2 - (1 - a)\<bar> \<le> \<bar>1 - a\<bar> / 2 ^ 53 + \<eta>"
  shows "\<bar>t2 - (1 - a)\<bar> \<le> 2 / 2 ^ 53" and "\<bar>t2 * bt\<bar> \<le> 2 * M"
proof -
  have M0: "0 \<le> M" using M by linarith
  have "\<bar>1 - a\<bar> \<le> 1" using a by simp
  then have "\<bar>1 - a\<bar> / 2 ^ 53 \<le> 1 / 2 ^ 53"
    by (rule divide_right_mono) simp
  with t2 eta show e2: "\<bar>t2 - (1 - a)\<bar> \<le> 2 / 2 ^ 53" by linarith
  have "(2 / 2 ^ 53 :: real) \<le> 1" by simp
  with e2 a have t2b: "\<bar>t2\<bar> \<le> 2" by linarith
  have "\<bar>t2 * bt\<bar> = \<bar>t2\<bar> * \<bar>bt\<bar>" by (simp add: abs_mult)
  also have "\<dots> \<le> 2 * M" using t2b M M0 by (intro mult_mono) simp_all
  finally show "\<bar>t2 * bt\<bar> \<le> 2 * M" .
qed

lemma ema_value_steps:
  fixes a v bt t1 t2 t3 M \<eta> :: real
  assumes a: "0 \<le> a" "a \<le> 1" and M: "\<bar>v\<bar> \<le> M" "\<bar>bt\<bar> \<le> M"
    and eta: "0 \<le> \<eta>" "\<eta> \<le> 1 / 2 ^ 53"
    and t1: "\<bar>t1 - a * v\<bar> \<le> \<bar>a * v\<bar> / 2 ^ 53 + \<eta>"
    and t2: "\<bar>t2 - (1 - a)\<bar> \<le> \<bar>1 - a\<bar> / 2 ^ 53 + \<eta>"
    and t3: "\<bar>t3 - t2 * bt\<bar> \<le> \<bar>t2 * bt\<bar> / 2 ^ 53 + \<eta>"
  shows "\<bar>(t1 + t3) - (a * v + (1 - a) * bt)\<bar> \<le> 5 * M / 2 ^ 53 + 2 * \<eta>"
    and "\<bar>t1 + t3\<bar> \<le> 2 * M + 2 * \<eta>"
proof -
  have M0: "0 \<le> M" using M(1) by linarith
  have av: "\<bar>a * v\<bar> \<le> M"
  proof -
    have "\<bar>a * v\<bar> = a * \<bar>v\<bar>" using a(1) by (simp add: abs_mult)
    also have "\<dots> \<le> 1 * M" using a M(1) M0 by (intro mult_mono) simp_all
    finally show ?thesis by simp
  qed
  have "\<bar>a * v\<bar> / 2 ^ 53 \<le> M / 2 ^ 53"
    using av by (rule divide_right_mono) simp
  with t1 have e1: "\<bar>t1 - a * v\<bar> \<le> M / 2 ^ 53 + \<eta>" by linarith
  note e2 = ema_value_t2[OF a M(2) eta t2]
  have "\<bar>t2 * bt\<bar> / 2 ^ 53 \<le> 2 * M / 2 ^ 53"
    using e2(2) by (rule divide_right_mono) simp
  with t3 have e3: "\<bar>t3 - t2 * bt\<bar> \<le> 2 * M / 2 ^ 53 + \<eta>" by linarith
  have e2bt: "\<bar>(t2 - (1 - a)) * bt\<bar> \<le> 2 * M / 2 ^ 53"
  proof -
    have "\<bar>(t2 - (1 - a)) * bt\<bar> = \<bar>t2 - (1 - a)\<bar> * \<bar>bt\<bar>" by (simp add: abs_mult)
    also have "\<dots> \<le> (2 / 2 ^ 53) * M"
      using e2(1) M(2) M0 by (intro mult_mono) simp_all
    finally show ?thesis by simp
  qed
  have split: "(t1 + t3) - (a * v + (1 - a) * bt)
                 = (t1 - a * v) + (t2 - (1 - a)) * bt + (t3 - t2 * bt)"
    by (simp add: algebra_simps)
  show 3: "\<bar>(t1 + t3) - (a * v + (1 - a) * bt)\<bar> \<le> 5 * M / 2 ^ 53 + 2 * \<eta>"
    unfolding split using e1 e2bt e3 by linarith
  have E: "\<bar>a * v + (1 - a) * bt\<bar> \<le> M"
    using blend_between[OF a, of v bt] M by (simp add: abs_le_iff min_def max_def split: if_splits)
  have "5 * M / 2 ^ 53 \<le> M" using M0 by simp
  with 3 E show "\<bar>t1 + t3\<bar> \<le> 2 * M + 2 * \<eta>" by linarith
qed

lemma ema_value_error:
  fixes a v bt y M :: real
  assumes a: "0 \<le> a" "a \<le> 1" and M: "\<bar>v\<bar> \<le> M" "\<bar>bt\<bar> \<le> M"
    and y: "ema_value a v bt = Some y"
  shows "\<bar>y - (a * v + (1 - a) * bt)\<bar> \<le> M / 2 ^ 50 + 1 / 2 ^ 1073"
proof -
  define \<eta> :: real where "\<eta> = 1 / 2 ^ 1075"
  have eta: "0 \<le> \<eta>" "\<eta> \<le> 1 / 2 ^ 53" "4 * \<eta> = 1 / 2 ^ 1073"
    by (simp_all add: \<eta>_def)
  from y obtain t1 t2 t3 where
    f1: "fl64 (a * v) = Some t1" and f2: "fl64 (1 - a) = Some t2"
    and f3: "fl64 (t2 * bt) = Some t3" and f4: "fl64 (t1 + t3) = Some y"
    by (auto simp: ema_value_def bind_eq_Some_conv)
  have M0: "0 \<le> M" using M(1) by linarith
  note st = ema_value_steps[OF a M eta(1,2)
      fl64_error[OF f1, folded \<eta>_def] fl64_error[OF f2, folded \<eta>_def]
      fl64_error[OF f3, folded \<eta>_def]]
  have "\<bar>t1 + t3\<bar> / 2 ^ 53 \<le> (2 * M + 2 * \<eta>) / 2 ^ 53"
    using st(2) by (rule divide_right_mono) simp
  with fl64_error[OF f4, folded \<eta>_def]
  have e4: "\<bar>y - (t1 + t3)\<bar> \<le> (2 * M + 2 * \<eta>) / 2 ^ 53 + \<eta>" by linarith
  have "(2 * M + 2 * \<eta>) / 2 ^ 53 \<le> 2 * M / 2 ^ 53 + \<eta>"
    using eta(1) by (simp add: field_simps)
  with e4 st(1) have "\<bar>y - (a * v + (1 - a) * bt)\<bar> \<le> 7 * M / 2 ^ 53 + 4 * \<eta>"
    by linarith
  moreover have "7 * M / 2 ^ 53 \<le> M / 2 ^ 50" using M0 by simp
  ultimately show ?thesis using eta(3) by linarith
qed

lemma ema_value_finite:
  fixes a v bt M :: real
  assumes a: "0 \<le> a" "a \<le> 1" and M: "\<bar>v\<bar> \<le> M" "\<bar>bt\<bar> \<le> M" "M \<le> 2 ^ 1021"
  shows "\<exists>y. ema_value a v bt = Some y"
proof -
  define \<eta> :: real where "\<eta> = 1 / 2 ^ 1075"
  have eta: "0 \<le> \<eta>" "\<eta> \<le> 1 / 2 ^ 53" "\<eta> \<le> 1"
    by (simp_all add: \<eta>_def)
  have M0: "0 \<le> M" using M(1) by linarith
  have big: "(2 :: real) ^ 1021 \<le> 2 ^ 1023" "2 * (2 :: real) ^ 1021 + 2 \<le> 2 ^ 1023"
    "(1 :: real) \<le> 2 ^ 1023"
    by simp_all
  define t1 where "t1 = round64 (a * v)"
  define t2 where "t2 = round64 (1 - a)"
  define t3 where "t3 = round64 (t2 * bt)"
  have "\<bar>a * v\<bar> \<le> 1 * M"
    unfolding abs_mult using a M(1) M0 by (intro mult_mono) simp_all
  then have f1: "fl64 (a * v) = Some t1"
    unfolding t1_def using M(3) big(1) by (intro fl64_finite) linarith
  have "\<bar>1 - a\<bar> \<le> 1" using a by simp
  then have f2: "fl64 (1 - a) = Some t2"
    unfolding t2_def using big(3) by (intro fl64_finite) linarith
  note e2 = ema_value_t2[OF a M(2) eta(1,2) fl64_error[OF f2, folded \<eta>_def]]
  have f3: "fl64 (t2 * bt) = Some t3"
    unfolding t3_def using e2(2) M(3) big(2) by (intro fl64_finite) linarith
  note st = ema_value_steps[OF a M(1,2) eta(1,2)
      fl64_error[OF f1, folded \<eta>_def] fl64_error[OF f2, folded \<eta>_def]
      fl64_error[OF f3, folded \<eta>_def]]
  have f4: "fl64 (t1 + t3) = Some (round64 (t1 + t3))"
    using st(2) M(3) big(2) eta(3) by (intro fl64_finite) linarith
  show ?thesis
    by (simp add: ema_value_def f1 f2 f3 f4)
qed

subsection \<open>The blend at the literals \<^verbatim>\<open>0.1\<close> and \<^verbatim>\<open>0.3\<close>\<close>

lemmas fl64_eval = round_half_even_def Let_def power_int_minus field_simps

lemma fl64_tenth: "fl64 (1 / 10) = Some binary64_0_1"
  using fl64_normal[of "-4" "1 / 10" 7205759403792794]
  by (simp add: fl64_eval)

lemma fl64_three_tenths: "fl64 (3 / 10) = Some binary64_0_3"
  using fl64_normal[of "-2" "3 / 10" 5404319552844595]
  by (simp add: fl64_eval)

lemma fl64_binary64_0_1: "fl64 binary64_0_1 = Some binary64_0_1"
  using fl64_normal[of "-4" binary64_0_1 7205759403792794]
  by (simp add: fl64_eval)

lemma fl64_binary64_0_3: "fl64 binary64_0_3 = Some binary64_0_3"
  using fl64_normal[of "-2" binary64_0_3 5404319552844595]
  by (simp add: fl64_eval)

text \<open>\<^verbatim>\<open>0.1 * 0.3 + (1.0 - 0.1) * 0.3\<close>, operation by operation: \<^verbatim>\<open>0.30000000000000004\<close>.\<close>

lemma fl64_mul_01_03: "fl64 (binary64_0_1 * binary64_0_3) = Some (1080863910568919 / 2 ^ 55)"
  using fl64_normal[of "-6" "binary64_0_1 * binary64_0_3" 8646911284551352]
  by (simp add: fl64_eval)

lemma fl64_sub_1_01: "fl64 (1 - binary64_0_1) = Some (8106479329266893 / 2 ^ 53)"
  using fl64_normal[of "-1" "1 - binary64_0_1" 8106479329266893]
  by (simp add: fl64_eval)

lemma fl64_mul_09_03:
  "fl64 (8106479329266893 / 2 ^ 53 * binary64_0_3) = Some (607985949695017 / 2 ^ 51)"
  using fl64_normal[of "-2" "8106479329266893 / 2 ^ 53 * binary64_0_3" 4863887597560136]
  by (simp add: fl64_eval)

lemma fl64_add_003_027:
  "fl64 (1080863910568919 / 2 ^ 55 + 607985949695017 / 2 ^ 51) = Some (1351079888211149 / 2 ^ 52)"
  using fl64_normal[of "-2" "1080863910568919 / 2 ^ 55 + 607985949695017 / 2 ^ 51" 5404319552844596]
  by (simp add: fl64_eval)

lemma ema_value_01_03:
  "ema_value binary64_0_1 binary64_0_3 binary64_0_3 = Some (1351079888211149 / 2 ^ 52)"
  unfolding ema_value_def
  by (simp only: fl64_mul_01_03 fl64_sub_1_01 fl64_mul_09_03 fl64_add_003_027 Option.bind.simps)

text \<open>\<^verbatim>\<open>0.3 * 0.1 + (1.0 - 0.3) * 0.1\<close>, operation by operation: \<^verbatim>\<open>0.09999999999999999\<close>.\<close>

lemma fl64_mul_03_01: "fl64 (binary64_0_3 * binary64_0_1) = Some (1080863910568919 / 2 ^ 55)"
  using fl64_normal[of "-6" "binary64_0_3 * binary64_0_1" 8646911284551352]
  by (simp add: fl64_eval)

lemma fl64_sub_1_03: "fl64 (1 - binary64_0_3) = Some (3152519739159347 / 2 ^ 52)"
  using fl64_normal[of "-1" "1 - binary64_0_3" 6305039478318694]
  by (simp add: fl64_eval)

lemma fl64_mul_07_01:
  "fl64 (3152519739159347 / 2 ^ 52 * binary64_0_1) = Some (5044031582654955 / 2 ^ 56)"
  using fl64_normal[of "-4" "3152519739159347 / 2 ^ 52 * binary64_0_1" 5044031582654955]
  by (simp add: fl64_eval)

lemma fl64_add_003_007:
  "fl64 (1080863910568919 / 2 ^ 55 + 5044031582654955 / 2 ^ 56) = Some (7205759403792793 / 2 ^ 56)"
  using fl64_normal[of "-4" "1080863910568919 / 2 ^ 55 + 5044031582654955 / 2 ^ 56" 7205759403792793]
  by (simp add: fl64_eval)

lemma ema_value_03_01:
  "ema_value binary64_0_3 binary64_0_1 binary64_0_1 = Some (7205759403792793 / 2 ^ 56)"
  unfolding ema_value_def
  by (simp only: fl64_mul_03_01 fl64_sub_1_03 fl64_mul_07_01 fl64_add_003_007 Option.bind.simps)

subsection \<open>The weights one and zero\<close>

lemma ema_value_one:
  assumes "fl64 v = Some v"
  shows "ema_value 1 v bt = Some v"
  using assms by (simp add: ema_value_def fl64_zero)

lemma ema_value_zero:
  assumes "fl64 bt = Some bt"
  shows "ema_value 0 v bt = Some bt"
  using assms by (simp add: ema_value_def fl64_zero fl64_one)

lemma store_value_smoothed:
  assumes "ema_alpha st = Some a" and "value st = v" and "ema_value a v bt = Some y"
  shows "store_value st bt = Some (st\<lparr>value := y\<rparr>)"
  using assms by (simp add: store_value_def)

subsection \<open>Between the old value and the fresh coefficient\<close>

text \<open>
  Claim C9, as the code has it. For a configured \<open>ema_alpha = a\<close> in \<open>[0, 1]\<close> and every
  fresh coefficient \<open>beta_t\<close> (both it and the old value at most \<open>2^1021\<close> in magnitude),
  the store completes, changing the value only. The new value is the old value when
  \<open>a = 1\<close> and is \<open>beta_t\<close> when \<open>a = 0\<close>, exactly. For the other weights it lies between
  the old value and \<open>beta_t\<close> up to the rounding of the four operations: it is at least
  their minimum less \<open>max(|old|, |beta_t|) / 2^50 + 2^-1073\<close> and at most their maximum
  plus as much.
\<close>

theorem smoothed_value_near_between:
  assumes "ema_alpha st = Some a" and "0 \<le> a" and "a \<le> 1"
    and "\<bar>value st\<bar> \<le> 2 ^ 1021" and "\<bar>bt\<bar> \<le> 2 ^ 1021"
  shows "\<exists>y. store_value st bt = Some (st\<lparr>value := y\<rparr>)
           \<and> min (value st) bt - (max \<bar>value st\<bar> \<bar>bt\<bar> / 2 ^ 50 + 1 / 2 ^ 1073) \<le> y
           \<and> y \<le> max (value st) bt + (max \<bar>value st\<bar> \<bar>bt\<bar> / 2 ^ 50 + 1 / 2 ^ 1073)
           \<and> (a = 1 \<and> fl64 (value st) = Some (value st) \<longrightarrow> y = value st)
           \<and> (a = 0 \<and> fl64 bt = Some bt \<longrightarrow> y = bt)"
proof -
  define M where "M = max \<bar>value st\<bar> \<bar>bt\<bar>"
  have M: "\<bar>value st\<bar> \<le> M" "\<bar>bt\<bar> \<le> M" "M \<le> 2 ^ 1021"
    using assms(4,5) by (simp_all add: M_def)
  from ema_value_finite[OF assms(2,3) M] obtain y where
    y: "ema_value a (value st) bt = Some y" by blast
  have st: "store_value st bt = Some (st\<lparr>value := y\<rparr>)"
    using assms(1) y by (simp add: store_value_def)
  have "\<bar>y - (a * value st + (1 - a) * bt)\<bar> \<le> M / 2 ^ 50 + 1 / 2 ^ 1073"
    using ema_value_error[OF assms(2,3) M(1,2) y] .
  with blend_between[OF assms(2,3), of "value st" bt]
  have b: "min (value st) bt - (M / 2 ^ 50 + 1 / 2 ^ 1073) \<le> y"
    "y \<le> max (value st) bt + (M / 2 ^ 50 + 1 / 2 ^ 1073)"
    by linarith+
  have one: "y = value st" if "a = 1" "fl64 (value st) = Some (value st)"
    using y ema_value_one[OF that(2), of bt] that(1) by simp
  have zero: "y = bt" if "a = 0" "fl64 bt = Some bt"
    using y ema_value_zero[OF that(2), of "value st"] that(1) by simp
  from st b one zero show ?thesis
    unfolding M_def by blast
qed

theorem smoothed_value_near_between_witness:
  "ema_alpha (smoothing_state binary64_0_1 binary64_0_3 binary64_0_1) = Some binary64_0_3
   \<and> 0 \<le> binary64_0_3 \<and> binary64_0_3 \<le> 1
   \<and> \<bar>value (smoothing_state binary64_0_1 binary64_0_3 binary64_0_1)\<bar> \<le> 2 ^ 1021
   \<and> \<bar>binary64_0_1\<bar> \<le> 2 ^ 1021
   \<and> store_value (smoothing_state binary64_0_1 binary64_0_3 binary64_0_1) binary64_0_1
       = Some (smoothing_state binary64_0_1 binary64_0_3 (7205759403792793 / 2 ^ 56))
   \<and> binary64_0_1 - (binary64_0_1 / 2 ^ 50 + 1 / 2 ^ 1073) \<le> 7205759403792793 / 2 ^ 56
   \<and> 7205759403792793 / 2 ^ 56 \<le> binary64_0_1 + (binary64_0_1 / 2 ^ 50 + 1 / 2 ^ 1073)
   \<and> fl64 binary64_0_3 = Some binary64_0_3
   \<and> store_value (smoothing_state 1 1 binary64_0_3) binary64_0_1
       = Some (smoothing_state 1 1 binary64_0_3)
   \<and> fl64 binary64_0_1 = Some binary64_0_1
   \<and> store_value (smoothing_state 1 0 binary64_0_3) binary64_0_1
       = Some (smoothing_state 1 0 binary64_0_1)"
proof -
  have ev: "store_value (smoothing_state binary64_0_1 binary64_0_3 binary64_0_1) binary64_0_1
       = Some ((smoothing_state binary64_0_1 binary64_0_3 binary64_0_1)
                 \<lparr>value := 7205759403792793 / 2 ^ 56\<rparr>)"
    by (rule store_value_smoothed[OF _ _ ema_value_03_01]) simp_all
  have 1: "\<exists>y. store_value (smoothing_state binary64_0_1 binary64_0_3 binary64_0_1) binary64_0_1
                 = Some ((smoothing_state binary64_0_1 binary64_0_3 binary64_0_1)\<lparr>value := y\<rparr>)
           \<and> binary64_0_1 - (binary64_0_1 / 2 ^ 50 + 1 / 2 ^ 1073) \<le> y
           \<and> y \<le> binary64_0_1 + (binary64_0_1 / 2 ^ 50 + 1 / 2 ^ 1073)"
    using smoothed_value_near_between
      [of "smoothing_state binary64_0_1 binary64_0_3 binary64_0_1" binary64_0_3 binary64_0_1]
    by simp
  have 2: "store_value (smoothing_state 1 1 binary64_0_3) binary64_0_1
             = Some (smoothing_state 1 1 binary64_0_3)"
    using smoothed_value_near_between[of "smoothing_state 1 1 binary64_0_3" 1 binary64_0_1]
      fl64_binary64_0_3
    by auto
  have 3: "store_value (smoothing_state 1 0 binary64_0_3) binary64_0_1
             = Some (smoothing_state 1 0 binary64_0_1)"
    using smoothed_value_near_between[of "smoothing_state 1 0 binary64_0_3" 0 binary64_0_1]
      fl64_binary64_0_1
    by auto
  from 1 ev have "binary64_0_1 - (binary64_0_1 / 2 ^ 50 + 1 / 2 ^ 1073) \<le> 7205759403792793 / 2 ^ 56
     \<and> 7205759403792793 / 2 ^ 56 \<le> binary64_0_1 + (binary64_0_1 / 2 ^ 50 + 1 / 2 ^ 1073)"
    by auto
  with ev 2 3 fl64_binary64_0_1 fl64_binary64_0_3 show ?thesis by simp
qed

text \<open>
  With \<open>ema_alpha = 0.3\<close>, the old value \<open>0.1\<close> and the fresh coefficient \<open>0.1\<close>, the value
  stored is \<open>0.09999999999999999\<close>, below both.
\<close>

theorem smoothed_value_not_between_counterexample:
  "ema_alpha (smoothing_state binary64_0_1 binary64_0_3 binary64_0_1) = Some binary64_0_3
   \<and> 0 \<le> binary64_0_3 \<and> binary64_0_3 \<le> 1
   \<and> store_value (smoothing_state binary64_0_1 binary64_0_3 binary64_0_1) binary64_0_1
       = Some (smoothing_state binary64_0_1 binary64_0_3 (7205759403792793 / 2 ^ 56))
   \<and> 7205759403792793 / 2 ^ 56
       < min (value (smoothing_state binary64_0_1 binary64_0_3 binary64_0_1)) binary64_0_1"
proof -
  have "store_value (smoothing_state binary64_0_1 binary64_0_3 binary64_0_1) binary64_0_1
       = Some ((smoothing_state binary64_0_1 binary64_0_3 binary64_0_1)
                 \<lparr>value := 7205759403792793 / 2 ^ 56\<rparr>)"
    by (rule store_value_smoothed[OF _ _ ema_value_03_01]) simp_all
  then show ?thesis by simp
qed

subsection \<open>Above \<open>beta_max\<close>\<close>

text \<open>
  Claim C1, at an input where the code leaves the range. The controller constructed with
  \<open>beta_min = 0.0\<close>, \<open>beta_max = 0.3\<close> and \<open>ema_alpha = 0.1\<close> starts at \<open>beta_max\<close>. Its first
  update, on the single group \<open>[2, 2, 2]\<close>, computes the fresh coefficient \<open>beta_max\<close>,
  clipped into the range, and then stores the blend of the two, which is
  \<open>0.30000000000000004\<close>: above \<open>beta_max\<close>. The clip of line 96 comes before the blend of
  line 100, and nothing bounds the blend.
\<close>

theorem smoothed_value_exceeds_beta_max:
  "init 0 binary64_0_3 (1 / 10 ^ 8) (Some binary64_0_1)
     = Inr (smoothing_state binary64_0_3 binary64_0_1 binary64_0_3)
   \<and> beta_t (smoothing_state binary64_0_3 binary64_0_1 binary64_0_3) [2, 2, 2] [k, k, k]
       = Inr binary64_0_3
   \<and> store_value (smoothing_state binary64_0_3 binary64_0_1 binary64_0_3) binary64_0_3
       = Some (smoothing_state binary64_0_3 binary64_0_1 (1351079888211149 / 2 ^ 52))
   \<and> beta_max (smoothing_state binary64_0_3 binary64_0_1 (1351079888211149 / 2 ^ 52))
       < value (smoothing_state binary64_0_3 binary64_0_1 (1351079888211149 / 2 ^ 52))"
proof -
  have "group_score (1 / 10 ^ 8) [2, 2, 2] = Some 0"
    by (intro group_score_all_equal[where c = 2]) simp_all
  then have bt: "beta_t (smoothing_state binary64_0_3 binary64_0_1 binary64_0_3) [2, 2, 2] [k, k, k]
       = Inr binary64_0_3"
    by (simp add: beta_t_def group_indices_three take_rows_def s_batch_def mean_def clip_def)
  have "store_value (smoothing_state binary64_0_3 binary64_0_1 binary64_0_3) binary64_0_3
       = Some ((smoothing_state binary64_0_3 binary64_0_1 binary64_0_3)
                 \<lparr>value := 1351079888211149 / 2 ^ 52\<rparr>)"
    by (rule store_value_smoothed[OF _ _ ema_value_01_03]) simp_all
  with bt show ?thesis by (simp add: init_def)
qed

end
